theory Spec2Isabelle
  imports Complex_Main "HOL-Library.AList"
begin

section \<open>Values shared by the command and hardware layers\<close>

text \<open>
  JSON values as Python's \<open>json\<close> module produces them: \<open>None\<close>, booleans, integers,
  floats, strings, lists and dictionaries. A dictionary is kept as its list of items; a key
  is looked up with \<open>map_of\<close>.
\<close>

datatype json =
    JNull
  | JBool bool
  | JInt int
  | JFloat real
  | JStr string
  | JArr "json list"
  | JObj "(string \<times> json) list"

text \<open>The HTTP request object that travels with a command is opaque to this code.\<close>

typedecl request

text \<open>
  The exceptions of \<open>driver.py\<close> and \<open>command.py\<close> and the Python built-in exceptions that
  the modelled code can raise, each with the text that \<open>str()\<close> gives.
  \<open>CommandError\<close> carries its message and its \<open>error_parameters\<close> attribute
  (\<open>JNull\<close> is Python's \<open>None\<close>, the default of \<open>error_data\<close>).
  \<open>OtherException\<close> is any other exception a command handler raises, with its text.
\<close>

datatype exception =
    CommandNotFound string
  | CommandInvalidSchema string
  | CommandMalformed string
  | CommandError string json
  | PipelineAlreadyRegistered string
  | PipelineNotRegistered string
  | StateNotDefined string
  | CommandHandlerNotDefined string
  | DeviceInUse string
  | UnboundLocalError string
  | AttributeError string
  | KeyError string
  | TypeError string
  | OtherException string

section \<open>Commands (command.py)\<close>

text \<open>
  The attributes of \<open>Command\<close>. The attributes that hold Python values are JSON values,
  \<open>JNull\<close> being \<open>None\<close>.
\<close>

record command =
  request :: "request option"
  time_received :: real
  command_raw :: string
  command_json :: json
  valid :: bool
  command :: json
  device_id :: json
  parameters :: json

text \<open>
  A command handler is an object with one method \<open>command_<name>\<close> per command: the map
  from attribute names to methods. \<open>hasattr(handler, a)\<close> is \<open>handler a \<noteq> None\<close>, and a method
  returns its result dictionary or raises.
\<close>

type_synonym command_handler = "string \<rightharpoonup> (command \<Rightarrow> exception + json)"

section \<open>Pipelines and sessions\<close>

record service =
  service_id :: string
  service_type :: string

record reservation_configuration =
  active_services_config :: "(string \<times> string) list option"

record session =
  configuration :: reservation_configuration

text \<open>
  Modelled from the spec: the Pipeline class (\<open>hwm/hardware/pipelines/pipeline.py\<close>) is not
  among the sources; only its tests and its callers in \<open>driver.py\<close> are. The record follows
  the data model of the specification. Devices are referred to by the id under which the
  device manager holds them (\<open>DeviceManager.devices\<close> rejects duplicate ids), in the fixed
  order in which the pipeline reserves them.
\<close>

record pipeline =
  pipeline_id :: string
  devices :: "string list"
  input_device :: "string option"
  output_device :: "string option"
  services :: "string \<rightharpoonup> (string \<rightharpoonup> service)"
  active_services :: "string \<rightharpoonup> string"
  current_session :: "session option"
  in_use :: bool

section \<open>Device drivers (driver.py)\<close>

record device_configuration =
  config_id :: string
  config_allow_concurrent_use :: "bool option"
  config_settings :: "json option"

text \<open>
  The attributes of \<open>Driver\<close>. \<open>associated_pipelines\<close> is the dictionary from pipeline id
  to pipeline, as its list of items in iteration order (each value is the state of the
  referenced pipeline when the driver reads it).
\<close>

record driver =
  settings :: json
  driver_id :: string
  allow_concurrent_use :: bool
  associated_pipelines :: "(string \<times> pipeline) list"
  command_handler :: "command_handler option"
  use_count :: int
  locked :: bool

definition Driver_init :: "device_configuration \<Rightarrow> driver" where
  "Driver_init device_configuration =
     \<lparr> settings = (case config_settings device_configuration of None \<Rightarrow> JObj [] | Some s \<Rightarrow> s),
       driver_id = config_id device_configuration,
       allow_concurrent_use =
         (case config_allow_concurrent_use device_configuration of None \<Rightarrow> False | Some b \<Rightarrow> b),
       associated_pipelines = [],
       command_handler = None,
       use_count = 0,
       locked = False \<rparr>"


definition is_locked :: "driver \<Rightarrow> bool" where
  "is_locked d = locked d"

text \<open>
  A method that mutates the driver returns what it raised (\<open>Inl\<close>) or returned (\<open>Inr\<close>)
  together with the driver as the call leaves it.
\<close>

definition reserve_device :: "driver \<Rightarrow> (exception + unit) \<times> driver" where
  "reserve_device d =
     (if \<not> allow_concurrent_use d then
        (if is_locked d then
           (Inl (DeviceInUse
              ''The requested device has already been reserved and can't be used again until it has been freed.''), d)
         else (Inr (), d\<lparr>locked := True\<rparr>\<lparr>use_count := use_count d + 1\<rparr>))
      else (Inr (), d\<lparr>use_count := use_count d + 1\<rparr>))"

definition free_device :: "driver \<Rightarrow> driver" where
  "free_device d =
     (let d1 = (if \<not> allow_concurrent_use d then d\<lparr>locked := False\<rparr> else d)
      in d1\<lparr>use_count := (if use_count d1 - 1 < 0 then 0 else use_count d1 - 1)\<rparr>)"

definition get_command_handler :: "driver \<Rightarrow> exception + command_handler" where
  "get_command_handler d =
     (case command_handler d of
        None \<Rightarrow> Inl (CommandHandlerNotDefined
                  (''The '' @ [CHR 0x27] @ driver_id d @ [CHR 0x27] @
                   '' device does not specify a command handler.''))
      | Some h \<Rightarrow> Inr h)"

text \<open>
  Sequences of calls on one driver: a caller that catches \<open>DeviceInUse\<close> goes on with the
  driver as the failed call left it.
\<close>

datatype driver_call = Reserve | Free

fun do_call :: "driver \<Rightarrow> driver_call \<Rightarrow> driver" where
  "do_call d Reserve = snd (reserve_device d)"
| "do_call d Free = free_device d"

definition run_calls :: "driver \<Rightarrow> driver_call list \<Rightarrow> driver" where
  "run_calls d cs = foldl do_call d cs"


section \<open>Device output (driver.py)\<close>

text \<open>
  \<open>write_output\<close> and \<open>write_telemetry\<close> call methods of the associated pipelines. The
  model returns the calls made, in order: the key of the pipeline called and the arguments.
  Whether a pipeline is active is a property of the Pipeline class, taken as the parameter
  \<open>pipeline_is_active\<close>. The test \<open>self is pipeline.output_device\<close> compares references;
  a device reference is the device's id. The \<open>binary\<close> flag and the extra headers of
  \<open>write_telemetry\<close> are handed on untouched and are left out, and \<open>now\<close> is the reading of
  \<open>int(time.time())\<close>. \<open>register_pipeline\<close> ends with the hook \<open>_register_services\<close>, which
  does nothing in the base driver.
\<close>

fun write_output_loop ::
  "(pipeline \<Rightarrow> bool) \<Rightarrow> driver \<Rightarrow> string \<Rightarrow> (string \<times> pipeline) list \<Rightarrow> (string \<times> string) list" where
  "write_output_loop pipeline_is_active self output_data [] = []"
| "write_output_loop pipeline_is_active self output_data ((temp_pipeline, p) # rest) =
     (if pipeline_is_active p then
        (if output_device p = Some (driver_id self) then
           (temp_pipeline, output_data) # write_output_loop pipeline_is_active self output_data rest
         else write_output_loop pipeline_is_active self output_data rest)
      else write_output_loop pipeline_is_active self output_data rest)"

definition write_output :: "(pipeline \<Rightarrow> bool) \<Rightarrow> driver \<Rightarrow> string \<Rightarrow> (string \<times> string) list" where
  "write_output pipeline_is_active self output_data =
     write_output_loop pipeline_is_active self output_data (associated_pipelines self)"

fun write_telemetry_loop ::
  "(pipeline \<Rightarrow> bool) \<Rightarrow> driver \<Rightarrow> string \<Rightarrow> int \<Rightarrow> json \<Rightarrow> (string \<times> pipeline) list \<Rightarrow>
     (string \<times> string \<times> string \<times> int \<times> json) list" where
  "write_telemetry_loop pipeline_is_active self stream now telemetry_datum [] = []"
| "write_telemetry_loop pipeline_is_active self stream now telemetry_datum ((temp_pipeline, p) # rest) =
     (if pipeline_is_active p then
        (temp_pipeline, driver_id self, stream, now, telemetry_datum)
          # write_telemetry_loop pipeline_is_active self stream now telemetry_datum rest
      else write_telemetry_loop pipeline_is_active self stream now telemetry_datum rest)"

definition write_telemetry ::
  "(pipeline \<Rightarrow> bool) \<Rightarrow> driver \<Rightarrow> string \<Rightarrow> int \<Rightarrow> json \<Rightarrow> (string \<times> string \<times> string \<times> int \<times> json) list" where
  "write_telemetry pipeline_is_active self stream now telemetry_datum =
     write_telemetry_loop pipeline_is_active self stream now telemetry_datum (associated_pipelines self)"

definition register_pipeline :: "driver \<Rightarrow> pipeline \<Rightarrow> (exception + unit) \<times> driver" where
  "register_pipeline self p =
     (if pipeline_id p \<in> fst ` set (associated_pipelines self) then
        (Inl (PipelineAlreadyRegistered
           (''The '' @ [CHR 0x27] @ pipeline_id p @ [CHR 0x27] @
            '' pipeline has already been registered with the '' @ [CHR 0x27] @ driver_id self @
            [CHR 0x27] @ '' device.'')), self)
      else (Inr (), self\<lparr>associated_pipelines := associated_pipelines self @ [(pipeline_id p, p)]\<rparr>))"

section \<open>Command validation and responses (command.py)\<close>

definition Command_init :: "request option \<Rightarrow> real \<Rightarrow> string \<Rightarrow> command" where
  "Command_init req t raw_command =
     \<lparr> request = req,
       time_received = t,
       command_raw = raw_command,
       command_json = JNull,
       valid = False,
       command = JNull,
       device_id = JNull,
       parameters = JObj [] \<rparr>"

text \<open>Python's truth value of a value, as \<open>if value:\<close> tests it.\<close>

fun truthy :: "json \<Rightarrow> bool" where
  "truthy JNull = False"
| "truthy (JBool b) = b"
| "truthy (JInt i) = (i \<noteq> 0)"
| "truthy (JFloat x) = (x \<noteq> 0)"
| "truthy (JStr s) = (s \<noteq> [])"
| "truthy (JArr xs) = (xs \<noteq> [])"
| "truthy (JObj kvs) = (kvs \<noteq> [])"

fun type_name :: "json \<Rightarrow> string" where
  "type_name JNull = ''NoneType''"
| "type_name (JBool b) = ''bool''"
| "type_name (JInt i) = ''int''"
| "type_name (JFloat x) = ''float''"
| "type_name (JStr s) = ''str''"
| "type_name (JArr xs) = ''list''"
| "type_name (JObj kvs) = ''dict''"

text \<open>
  What the command schema of \<open>validate_command\<close> accepts: an object whose \<open>command\<close> is
  present and a string, whose \<open>device_id\<close>, when present, is a string, and whose
  \<open>parameters\<close>, when present, is an object.
\<close>

definition command_schema :: "json \<Rightarrow> bool" where
  "command_schema j =
     (case j of
        JObj kvs \<Rightarrow>
          (case map_of kvs ''command'' of Some (JStr s) \<Rightarrow> True | _ \<Rightarrow> False) \<and>
          (case map_of kvs ''device_id'' of None \<Rightarrow> True | Some (JStr s) \<Rightarrow> True | _ \<Rightarrow> False) \<and>
          (case map_of kvs ''parameters'' of None \<Rightarrow> True | Some (JObj ps) \<Rightarrow> True | _ \<Rightarrow> False)
      | _ \<Rightarrow> False)"

definition populate_command_attributes :: "command \<Rightarrow> (exception + bool) \<times> command" where
  "populate_command_attributes c =
     (if valid c \<and> command_json c \<noteq> JNull then
        (case command_json c of
           JObj kvs \<Rightarrow>
             (case map_of kvs ''command'' of
                None \<Rightarrow> (Inl (KeyError ([CHR 0x27] @ ''command'' @ [CHR 0x27])), c)
              | Some name \<Rightarrow>
                  (Inr True,
                   c\<lparr>command := name,
                     device_id := (case map_of kvs ''device_id'' of Some v \<Rightarrow> v | None \<Rightarrow> JNull),
                     parameters := (case map_of kvs ''parameters'' of Some v \<Rightarrow> v | None \<Rightarrow> JNull)\<rparr>))
         | other \<Rightarrow> (Inl (TypeError (type_name other @ '' value indexed by a string'')), c))
      else (Inr False, c))"

text \<open>
  The state of a fired Deferred: a result on its callback chain or a failure on its
  errback chain. \<open>addCallback\<close> and \<open>addErrback\<close> are Twisted's: a callback or errback
  that raises puts the exception on the errback chain, one that returns puts the value on
  the callback chain, and a callback that returns a Deferred hands the chain that
  Deferred's state.
\<close>

datatype 'a deferred = Callback 'a | Errback exception

definition addCallback :: "'a deferred \<Rightarrow> ('a \<Rightarrow> exception + 'b) \<Rightarrow> 'b deferred" where
  "addCallback d f =
     (case d of
        Callback v \<Rightarrow> (case f v of Inl e \<Rightarrow> Errback e | Inr w \<Rightarrow> Callback w)
      | Errback e \<Rightarrow> Errback e)"

definition addCallback_deferred :: "'a deferred \<Rightarrow> ('a \<Rightarrow> exception + 'b deferred) \<Rightarrow> 'b deferred" where
  "addCallback_deferred d f =
     (case d of
        Callback v \<Rightarrow> (case f v of Inl e \<Rightarrow> Errback e | Inr inner \<Rightarrow> inner)
      | Errback e \<Rightarrow> Errback e)"

definition addErrback :: "'a deferred \<Rightarrow> (exception \<Rightarrow> exception + 'a) \<Rightarrow> 'a deferred" where
  "addErrback d g =
     (case d of
        Callback v \<Rightarrow> Callback v
      | Errback e \<Rightarrow> (case g e of Inl e' \<Rightarrow> Errback e' | Inr w \<Rightarrow> Callback w))"

text \<open>
  \<open>validate_command\<close> returns a fired Deferred (\<open>Inr\<close>) or raises (\<open>Inl\<close>), and leaves the
  command updated. \<open>json_loads\<close> is the JSON parser, \<open>None\<close> where it raises \<open>ValueError\<close>.
\<close>

definition validate_command ::
  "(string \<Rightarrow> json option) \<Rightarrow> command \<Rightarrow> (exception + bool deferred) \<times> command" where
  "validate_command json_loads c =
     (case json_loads (command_raw c) of
        None \<Rightarrow>
          (Inr (Errback (CommandMalformed ''The submitted command contained a malformed JSON string.'')), c)
      | Some j \<Rightarrow>
          (let c1 = c\<lparr>command_json := j\<rparr> in
           if command_schema j then
             (case populate_command_attributes (c1\<lparr>valid := True\<rparr>) of
                (Inl e, c2) \<Rightarrow> (Inl e, c2)
              | (Inr b, c2) \<Rightarrow> (Inr (Callback True), c2))
           else
             (Inr (Errback (CommandInvalidSchema
                ''The submitted command did not conform to the command schema for command type: Command'')),
              c1)))"

text \<open>
  The dictionary returned by \<open>build_command_response\<close>. Its \<open>response\<close> is kept as the
  JSON object that the source hands to \<open>json.dumps\<close>, and \<open>now\<close> is the reading of
  \<open>time.time()\<close>.
\<close>

record command_response =
  response_request :: "request option"
  response :: json

definition build_command_response :: "real \<Rightarrow> command \<Rightarrow> bool \<Rightarrow> json \<Rightarrow> command_response" where
  "build_command_response now c success command_results =
     \<lparr> response_request = request c,
       response = JObj
         ([(''received_at'', JFloat (time_received c)),
           (''completed_at'', JFloat now),
           (''status'', JStr (if success then ''okay'' else ''error''))]
          @ (if truthy (device_id c) then [(''device_id'', device_id c)] else [])
          @ [(''result'', command_results)]) \<rparr>"

section \<open>The command parser (parser.py)\<close>

fun str_exception :: "exception \<Rightarrow> string" where
  "str_exception (CommandNotFound m) = m"
| "str_exception (CommandInvalidSchema m) = m"
| "str_exception (CommandMalformed m) = m"
| "str_exception (CommandError m error_data) = m"
| "str_exception (PipelineAlreadyRegistered m) = m"
| "str_exception (PipelineNotRegistered m) = m"
| "str_exception (StateNotDefined m) = m"
| "str_exception (CommandHandlerNotDefined m) = m"
| "str_exception (DeviceInUse m) = m"
| "str_exception (UnboundLocalError m) = m"
| "str_exception (AttributeError m) = m"
| "str_exception (KeyError m) = m"
| "str_exception (TypeError m) = m"
| "str_exception (OtherException m) = m"

text \<open>\<open>hasattr(e, 'error_parameters')\<close>: only \<open>CommandError\<close> sets the attribute.\<close>

fun error_parameters :: "exception \<Rightarrow> json option" where
  "error_parameters (CommandError m error_data) = Some error_data"
| "error_parameters e = None"

text \<open>\<open>value.items()\<close>: the items of a dictionary; any other value has no such method.\<close>

fun items :: "json \<Rightarrow> exception + (string \<times> json) list" where
  "items (JObj kvs) = Inr kvs"
| "items v = Inl (AttributeError
     ([CHR 0x27] @ type_name v @ [CHR 0x27] @ '' object has no attribute '' @ [CHR 0x27] @ ''items'' @ [CHR 0x27]))"

text \<open>\<open>dict(items)\<close>: a later item replaces an earlier one with the same key.\<close>

definition dict :: "(string \<times> json) list \<Rightarrow> (string \<times> json) list" where
  "dict kvs = foldl (\<lambda>d (k, v). AList.update k v d) [] kvs"

definition command_error :: "real \<Rightarrow> exception \<Rightarrow> command \<Rightarrow> exception + command_response" where
  "command_error now failure_value failed_command =
     (let error_message = [(''error_message'', JStr (str_exception failure_value))] in
      case (case error_parameters failure_value of
              Some ps \<Rightarrow> (case items ps of Inl e \<Rightarrow> Inl e | Inr kvs \<Rightarrow> Inr (dict (kvs @ error_message)))
            | None \<Rightarrow> Inr error_message) of
        Inl e \<Rightarrow> Inl e
      | Inr error_results \<Rightarrow> Inr (build_command_response now failed_command False (JObj error_results)))"

definition command_complete :: "real \<Rightarrow> json \<Rightarrow> command \<Rightarrow> exception + command_response" where
  "command_complete now command_results successful_command =
     Inr (build_command_response now successful_command True command_results)"

text \<open>\<open>'text' + value\<close>: string concatenation, a \<open>TypeError\<close> unless the value is a string.\<close>

definition concat_str :: "string \<Rightarrow> json \<Rightarrow> exception + string" where
  "concat_str prefix v =
     (case v of
        JStr s \<Rightarrow> Inr (prefix @ s)
      | other \<Rightarrow> Inl (TypeError (''cannot concatenate '' @ [CHR 0x27] @ ''str'' @ [CHR 0x27] @ '' and '' @
                        [CHR 0x27] @ type_name other @ [CHR 0x27] @ '' objects'')))"

text \<open>
  \<open>_run_command\<close>. The local variable \<open>command_handler\<close> is assigned only in the branch
  for commands without a device id (the other branch prints a line); \<open>None\<close> is the
  unassigned variable, and reading it raises \<open>UnboundLocalError\<close>. The method found under
  \<open>command_<name>\<close> runs in a thread whose outcome fires the returned Deferred. The
  calls of \<open>logging.error\<close> in \<open>_command_error\<close> are left out.
\<close>

text \<open>
  \<open>threads.deferToThread(f, x)\<close>: the Deferred that fires with what \<open>f(x)\<close> returns, or
  with the exception it raises.
\<close>

definition deferToThread :: "('a \<Rightarrow> exception + 'b) \<Rightarrow> 'a \<Rightarrow> 'b deferred" where
  "deferToThread f x = (case f x of Inl e \<Rightarrow> Errback e | Inr r \<Rightarrow> Callback r)"

definition run_command ::
  "command_handler \<Rightarrow> real \<Rightarrow> bool \<Rightarrow> command \<Rightarrow> exception + command_response deferred" where
  "run_command system_handler now validation_results valid_command =
     (let command_handler_var = (if truthy (device_id valid_command) then None else Some system_handler) in
      case command_handler_var of
        None \<Rightarrow> Inl (UnboundLocalError
                  (''local variable '' @ [CHR 0x27] @ ''command_handler'' @ [CHR 0x27] @
                   '' referenced before assignment''))
      | Some handler \<Rightarrow>
          (case concat_str ''command_'' (command valid_command) of
             Inl e \<Rightarrow> Inl e
           | Inr attribute \<Rightarrow>
               (case handler attribute of
                  None \<Rightarrow>
                    (case (if truthy (device_id valid_command) then
                             (case concat_str [CHR 0x27] (device_id valid_command) of
                                Inl e \<Rightarrow> Inl e
                              | Inr quoted \<Rightarrow> Inr (quoted @ [CHR 0x27] @ '' device''))
                           else Inr ''system'') of
                       Inl e \<Rightarrow> Inl e
                     | Inr handler_string \<Rightarrow>
                         Inl (CommandError
                           (''The received command could not be located in the '' @ handler_string @
                            '' command handler.'')
                           (JObj [(''invalid_command'', command valid_command)])))
                | Some method \<Rightarrow>
                    Inr (addErrback
                      (addCallback
                         (deferToThread method valid_command)
                         (\<lambda>command_results. command_complete now command_results valid_command))
                      (\<lambda>failure_value. command_error now failure_value valid_command)))))"

text \<open>
  \<open>parse_command\<close>: the state of the Deferred it returns (\<open>Inr\<close>), or the exception it
  raises itself (\<open>Inl\<close>).
\<close>

definition parse_command ::
  "(string \<Rightarrow> json option) \<Rightarrow> command_handler \<Rightarrow> real \<Rightarrow> real \<Rightarrow> string \<Rightarrow> request option \<Rightarrow>
     exception + command_response deferred" where
  "parse_command json_loads system_handler time_command_received now raw_command req =
     (let new_command = Command_init req time_command_received raw_command in
      case validate_command json_loads new_command of
        (Inl e, c) \<Rightarrow> Inl e
      | (Inr validation_deferred, c) \<Rightarrow>
          Inr (addErrback
            (addCallback_deferred validation_deferred
               (\<lambda>validation_results. run_command system_handler now validation_results c))
            (\<lambda>failure_value. command_error now failure_value c)))"

section \<open>Pipeline locking and session registration\<close>

datatype pipeline_error = PipelineInUse | SessionAlreadyRegistered | ServiceInvalid

text \<open>The devices of the device manager, by reference.\<close>

type_synonym device_store = "string \<Rightarrow> driver"

text \<open>
  Modelled from the spec: \<open>Pipeline.reserve_pipeline\<close>, \<open>Pipeline.free_pipeline\<close> and
  \<open>Pipeline.register_session\<close> (\<open>pipeline.py\<close> is not among the sources). The
  specification: if \<open>in_use\<close> is already true, fail with \<open>PipelineInUse\<close>; otherwise set
  \<open>in_use\<close> and reserve each device in a fixed order; on the first \<open>DeviceInUse\<close> free
  every device reserved earlier in this attempt, reset \<open>in_use\<close> and raise
  \<open>PipelineInUse\<close>. \<open>free_pipeline\<close> frees every device, then clears \<open>in_use\<close>.
\<close>

fun free_devices :: "string list \<Rightarrow> device_store \<Rightarrow> device_store" where
  "free_devices [] ds = ds"
| "free_devices (d # rest) ds = free_devices rest (ds(d := free_device (ds d)))"



definition free_pipeline :: "pipeline \<Rightarrow> device_store \<Rightarrow> pipeline \<times> device_store" where
  "free_pipeline p ds = (p\<lparr>in_use := False\<rparr>, free_devices (devices p) ds)"

text \<open>
  Modelled from the spec: \<open>register_session\<close> fails with \<open>SessionAlreadyRegistered\<close> if
  \<open>current_session\<close> is already set. Otherwise it sets \<open>current_session\<close> and, if the
  session's configuration specifies \<open>active_services\<close>, copies them into the pipeline's
  \<open>active_services\<close>, validating that each type/id pair exists; an invalid selection
  raises \<open>ServiceInvalid\<close> and \<open>current_session\<close> is rolled back to unset.
\<close>

fun set_active_services :: "(string \<times> string) list \<Rightarrow> pipeline \<Rightarrow> (pipeline_error + unit) \<times> pipeline" where
  "set_active_services [] p = (Inr (), p)"
| "set_active_services ((t, i) # rest) p =
     (case services p t of
        None \<Rightarrow> (Inl ServiceInvalid, p)
      | Some registered \<Rightarrow>
          (case registered i of
             None \<Rightarrow> (Inl ServiceInvalid, p)
           | Some s \<Rightarrow> set_active_services rest (p\<lparr>active_services := (active_services p)(t \<mapsto> i)\<rparr>)))"

definition register_session :: "session \<Rightarrow> pipeline \<Rightarrow> (pipeline_error + unit) \<times> pipeline" where
  "register_session s p =
     (if current_session p \<noteq> None then (Inl SessionAlreadyRegistered, p)
      else
        (let p1 = p\<lparr>current_session := Some s\<rparr> in
         case active_services_config (configuration s) of
           None \<Rightarrow> (Inr (), p1)
         | Some selection \<Rightarrow>
             (case set_active_services selection p1 of
                (Inl e, p2) \<Rightarrow> (Inl e, p2\<lparr>current_session := None\<rparr>)
              | (Inr u, p2) \<Rightarrow> (Inr (), p2))))"


section \<open>Predicates and example data used by the theorems\<close>

text \<open>
  The invariant of the device data model as the specification words it: without concurrent
  use, \<open>locked\<close> is true iff \<open>use_count > 0\<close>; with concurrent use, \<open>locked\<close> is false.
\<close>

definition driver_invariant :: "driver \<Rightarrow> bool" where
  "driver_invariant d =
     ((\<not> allow_concurrent_use d \<longrightarrow> (locked d \<longleftrightarrow> use_count d > 0)) \<and>
      (allow_concurrent_use d \<longrightarrow> \<not> locked d))"

text \<open>The states a driver can be in after calls of \<open>reserve_device\<close> and \<open>free_device\<close>.\<close>

definition driver_reachable :: "driver \<Rightarrow> bool" where
  "driver_reachable d =
     (if allow_concurrent_use d then \<not> locked d \<and> 0 \<le> use_count d
      else (locked d \<and> use_count d = 1) \<or> (\<not> locked d \<and> use_count d = 0))"

text \<open>A service of type \<open>t\<close> and id \<open>i\<close> is registered with the pipeline.\<close>

definition service_registered :: "pipeline \<Rightarrow> string \<Rightarrow> string \<Rightarrow> bool" where
  "service_registered p t i =
     (case services p t of None \<Rightarrow> False | Some registered \<Rightarrow> registered i \<noteq> None)"

text \<open>Reading a field of a response, and a field of its \<open>result\<close>.\<close>

definition response_field :: "command_response \<Rightarrow> string \<Rightarrow> json option" where
  "response_field r k = (case response r of JObj kvs \<Rightarrow> map_of kvs k | _ \<Rightarrow> None)"

definition result_field :: "command_response \<Rightarrow> string \<Rightarrow> json option" where
  "result_field r k =
     (case response_field r ''result'' of Some (JObj kvs) \<Rightarrow> map_of kvs k | _ \<Rightarrow> None)"

text \<open>
  The error envelope of a command: the request, both timestamps, the status \<open>error\<close> and
  a result that holds an error message.
\<close>

definition error_envelope :: "real \<Rightarrow> command \<Rightarrow> command_response \<Rightarrow> bool" where
  "error_envelope now c r =
     (response_request r = request c \<and>
      response_field r ''received_at'' = Some (JFloat (time_received c)) \<and>
      response_field r ''completed_at'' = Some (JFloat now) \<and>
      response_field r ''status'' = Some (JStr ''error'') \<and>
      (\<exists>m. result_field r ''error_message'' = Some (JStr m)))"

text \<open>Devices and pipelines in the manner of the test configurations.\<close>

definition test_device :: "string \<Rightarrow> bool \<Rightarrow> driver" where
  "test_device name concurrent =
     Driver_init \<lparr> config_id = name, config_allow_concurrent_use = Some concurrent,
                   config_settings = None \<rparr>"

definition test_pipeline :: "string \<Rightarrow> string list \<Rightarrow> string option \<Rightarrow> pipeline" where
  "test_pipeline name ds out =
     \<lparr> pipeline_id = name, devices = ds, input_device = None, output_device = out,
       services = [''tracker'' \<mapsto> [''sgp4'' \<mapsto> \<lparr> service_id = ''sgp4'', service_type = ''tracker'' \<rparr>]],
       active_services = Map.empty, current_session = None, in_use = False \<rparr>"


definition test_session :: "(string \<times> string) list option \<Rightarrow> session" where
  "test_session selection = \<lparr> configuration = \<lparr> active_services_config = selection \<rparr> \<rparr>"

text \<open>
  The JSON parser on the command texts of the command tests, and a system command handler
  with one command that returns a result and one that raises a \<open>CommandError\<close> without
  error data.
\<close>

definition test_json_loads :: "string \<Rightarrow> json option" where
  \<open>test_json_loads raw =
     (if raw = ''{"command":"test_command","parameters":{"test_parameter":5}}'' then
        Some (JObj [(''command'', JStr ''test_command''),
                    (''parameters'', JObj [(''test_parameter'', JInt 5)])])
      else if raw = ''{"command":"nonexistent_command","parameters":{"test_parameter":5}}'' then
        Some (JObj [(''command'', JStr ''nonexistent_command''),
                    (''parameters'', JObj [(''test_parameter'', JInt 5)])])
      else if raw = ''{"command":"test_command"}'' then
        Some (JObj [(''command'', JStr ''test_command'')])
      else if raw = ''{"command":"test_command","device_id":"test_device"}'' then
        Some (JObj [(''command'', JStr ''test_command''), (''device_id'', JStr ''test_device'')])
      else if raw = ''{"command":"failing_command"}'' then
        Some (JObj [(''command'', JStr ''failing_command'')])
      else if raw = ''{"message": "This schema is invalid"}'' then
        Some (JObj [(''message'', JStr ''This schema is invalid'')])
      else None)\<close>

definition test_system_handler :: command_handler where
  "test_system_handler =
     [''command_test_command'' \<mapsto> (\<lambda>c. Inr (JObj [(''test_result'', JInt 10)])),
      ''command_failing_command'' \<mapsto> (\<lambda>c. Inl (CommandError ''The command failed.'' JNull))]"

section \<open>Device reservation\<close>

lemma do_call_allow_concurrent_use [simp]:
  "allow_concurrent_use (do_call d c) = allow_concurrent_use d"
  by (cases c) (simp_all add: reserve_device_def free_device_def Let_def)

lemma run_calls_allow_concurrent_use [simp]:
  "allow_concurrent_use (run_calls d cs) = allow_concurrent_use d"
  unfolding run_calls_def by (induction cs arbitrary: d) simp_all

lemma run_calls_append: "run_calls d (xs @ ys) = run_calls (run_calls d xs) ys"
  by (simp add: run_calls_def)

lemma driver_reachable_init: "driver_reachable (Driver_init cfg)"
  by (simp add: driver_reachable_def Driver_init_def)

lemma driver_reachable_do_call: "driver_reachable d \<Longrightarrow> driver_reachable (do_call d c)"
  by (cases c)
     (auto simp add: driver_reachable_def reserve_device_def free_device_def is_locked_def Let_def)

lemma driver_reachable_run_calls: "driver_reachable d \<Longrightarrow> driver_reachable (run_calls d cs)"
  unfolding run_calls_def by (induction cs arbitrary: d) (simp_all add: driver_reachable_do_call)

lemma run_reserves:
  "allow_concurrent_use d \<Longrightarrow>
     run_calls d (replicate n Reserve) = d\<lparr>use_count := use_count d + int n\<rparr>"
  unfolding run_calls_def by (induction n arbitrary: d) (simp_all add: reserve_device_def)

lemma run_frees:
  "allow_concurrent_use d \<Longrightarrow> int m \<le> use_count d \<Longrightarrow>
     run_calls d (replicate m Free) = d\<lparr>use_count := use_count d - int m\<rparr>"
  unfolding run_calls_def by (induction m arbitrary: d) (simp_all add: free_device_def Let_def)

text \<open>
  C2. For a device without concurrent use: \<open>reserve_device\<close> on a locked device raises
  \<open>DeviceInUse\<close> and leaves the driver as it was; on an unlocked device it sets \<open>locked\<close>
  and increments \<open>use_count\<close>; after a successful \<open>reserve_device\<close> a second one raises
  \<open>DeviceInUse\<close>; and after \<open>free_device\<close> a \<open>reserve_device\<close> succeeds.
\<close>

theorem reserve_device_exclusive:
  assumes "\<not> allow_concurrent_use d"
  shows "(is_locked d \<longrightarrow> (\<exists>m. reserve_device d = (Inl (DeviceInUse m), d))) \<and>
         (\<not> is_locked d \<longrightarrow>
            reserve_device d = (Inr (), d\<lparr>locked := True, use_count := use_count d + 1\<rparr>)) \<and>
         (fst (reserve_device d) = Inr () \<longrightarrow>
            (\<exists>m. reserve_device (snd (reserve_device d)) =
                   (Inl (DeviceInUse m), snd (reserve_device d)))) \<and>
         fst (reserve_device (free_device d)) = Inr ()"
  using assms by (simp add: reserve_device_def free_device_def is_locked_def Let_def)

theorem reserve_device_exclusive_witness:
  "\<not> allow_concurrent_use (test_device ''test_device2'' False) \<and>
   \<not> is_locked (test_device ''test_device2'' False) \<and>
   fst (reserve_device (test_device ''test_device2'' False)) = Inr () \<and>
   is_locked (snd (reserve_device (test_device ''test_device2'' False))) \<and>
   (\<exists>m. fst (reserve_device (snd (reserve_device (test_device ''test_device2'' False)))) =
          Inl (DeviceInUse m)) \<and>
   fst (reserve_device (free_device (snd (reserve_device (test_device ''test_device2'' False))))) = Inr ()"
proof -
  let ?d = "test_device ''test_device2'' False"
  have h: "\<not> allow_concurrent_use ?d" by (simp add: test_device_def Driver_init_def)
  have h1: "\<not> allow_concurrent_use (snd (reserve_device ?d))"
    by (simp add: test_device_def Driver_init_def reserve_device_def is_locked_def)
  have u: "\<not> is_locked ?d" by (simp add: test_device_def Driver_init_def is_locked_def)
  have l: "is_locked (snd (reserve_device ?d))"
    by (simp add: test_device_def Driver_init_def reserve_device_def is_locked_def)
  have ok: "fst (reserve_device ?d) = Inr ()"
    using reserve_device_exclusive [OF h] u by simp
  obtain m where "reserve_device (snd (reserve_device ?d)) = (Inl (DeviceInUse m), snd (reserve_device ?d))"
    using reserve_device_exclusive [OF h] ok by blast
  then have "\<exists>m. fst (reserve_device (snd (reserve_device ?d))) = Inl (DeviceInUse m)" by simp
  then show ?thesis using h u l ok reserve_device_exclusive [OF h1] by blast
qed

text \<open>
  C3. From the initial state, every sequence of \<open>reserve_device\<close> and \<open>free_device\<close>
  calls leaves the driver in a state where, without concurrent use, \<open>locked\<close> is true iff
  \<open>use_count > 0\<close>, and with concurrent use, \<open>locked\<close> is false.
\<close>

theorem driver_invariant_run_calls:
  "driver_invariant (run_calls (Driver_init cfg) cs)"
  using driver_reachable_run_calls [OF driver_reachable_init, of cfg cs]
  by (auto simp add: driver_invariant_def driver_reachable_def split: if_splits)

theorem driver_invariant_run_calls_witness:
  "locked (run_calls (test_device ''test_device2'' False) [Reserve, Reserve, Free, Free, Reserve]) \<and>
   use_count (run_calls (test_device ''test_device2'' False) [Reserve, Reserve, Free, Free, Reserve]) > 0 \<and>
   \<not> locked (run_calls (test_device ''webcam'' True) [Reserve, Reserve, Free])"
proof -
  have a: "\<not> allow_concurrent_use (run_calls (test_device ''test_device2'' False) [Reserve, Reserve, Free, Free, Reserve])"
    by (simp add: test_device_def Driver_init_def)
  have b: "allow_concurrent_use (run_calls (test_device ''webcam'' True) [Reserve, Reserve, Free])"
    by (simp add: test_device_def Driver_init_def)
  have c: "locked (run_calls (test_device ''test_device2'' False) [Reserve, Reserve, Free, Free, Reserve])"
    by (simp add: test_device_def Driver_init_def run_calls_def reserve_device_def free_device_def
        is_locked_def Let_def)
  show ?thesis
    using a b c
      driver_invariant_run_calls [of "\<lparr> config_id = ''test_device2'', config_allow_concurrent_use = Some False, config_settings = None \<rparr>"
        "[Reserve, Reserve, Free, Free, Reserve]"]
      driver_invariant_run_calls [of "\<lparr> config_id = ''webcam'', config_allow_concurrent_use = Some True, config_settings = None \<rparr>"
        "[Reserve, Reserve, Free]"]
    by (simp add: driver_invariant_def test_device_def)
qed

text \<open>
  C7. For a device with concurrent use, from the initial state: after any number \<open>N\<close> of
  \<open>reserve_device\<close> calls the next one succeeds too; \<open>is_locked\<close> is false after every
  sequence of calls; after \<open>N\<close> reserves and \<open>M < N\<close> frees, \<open>use_count\<close> is \<open>N - M\<close>;
  \<open>free_device\<close> never leaves \<open>use_count\<close> below zero; and freeing the unreserved device
  raises nothing and changes nothing.
\<close>

theorem concurrent_device_counts:
  assumes "config_allow_concurrent_use cfg = Some True"
  shows "fst (reserve_device (run_calls (Driver_init cfg) (replicate N Reserve))) = Inr () \<and>
         \<not> is_locked (run_calls (Driver_init cfg) cs) \<and>
         (M < N \<longrightarrow>
            use_count (run_calls (Driver_init cfg) (replicate N Reserve @ replicate M Free)) =
              int N - int M) \<and>
         0 \<le> use_count (free_device d) \<and>
         free_device (Driver_init cfg) = Driver_init cfg"
proof (intro conjI impI)
  have acu: "allow_concurrent_use (Driver_init cfg)" using assms by (simp add: Driver_init_def)
  show "fst (reserve_device (run_calls (Driver_init cfg) (replicate N Reserve))) = Inr ()"
    using acu by (simp add: reserve_device_def)
  show "\<not> is_locked (run_calls (Driver_init cfg) cs)"
    using driver_reachable_run_calls [OF driver_reachable_init, of cfg cs] acu
    by (simp add: driver_reachable_def is_locked_def)
  show "use_count (run_calls (Driver_init cfg) (replicate N Reserve @ replicate M Free)) = int N - int M"
    if "M < N"
    using acu that by (simp add: run_calls_append run_reserves run_frees Driver_init_def)
  show "0 \<le> use_count (free_device d)" by (simp add: free_device_def Let_def)
  show "free_device (Driver_init cfg) = Driver_init cfg"
    using acu by (simp add: free_device_def Let_def Driver_init_def)
qed

theorem concurrent_device_counts_witness:
  "config_allow_concurrent_use
     \<lparr> config_id = ''webcam'', config_allow_concurrent_use = Some True, config_settings = None \<rparr>
     = Some True \<and>
   fst (reserve_device (run_calls
     (Driver_init \<lparr> config_id = ''webcam'', config_allow_concurrent_use = Some True, config_settings = None \<rparr>)
     (replicate 3 Reserve))) = Inr () \<and>
   \<not> is_locked (run_calls
     (Driver_init \<lparr> config_id = ''webcam'', config_allow_concurrent_use = Some True, config_settings = None \<rparr>)
     [Reserve, Free, Reserve]) \<and>
   use_count (run_calls
     (Driver_init \<lparr> config_id = ''webcam'', config_allow_concurrent_use = Some True, config_settings = None \<rparr>)
     (replicate 3 Reserve @ replicate 2 Free)) = int 3 - int 2"
proof -
  let ?cfg = "\<lparr> config_id = ''webcam'', config_allow_concurrent_use = Some True, config_settings = None \<rparr>"
  have h: "config_allow_concurrent_use ?cfg = Some True" by simp
  have lt: "(2::nat) < 3" by simp
  show ?thesis
    using concurrent_device_counts [OF h, of 3 "[Reserve, Free, Reserve]" 2 "Driver_init ?cfg"] lt h
    by blast
qed

text \<open>
  C10. For a device constructed without concurrent use, after every sequence of
  \<open>reserve_device\<close> and \<open>free_device\<close> calls from the initial state \<open>use_count\<close> is 0 or 1.
\<close>

theorem exclusive_device_use_count:
  assumes "config_allow_concurrent_use cfg \<noteq> Some True"
  shows "use_count (run_calls (Driver_init cfg) cs) = 0 \<or> use_count (run_calls (Driver_init cfg) cs) = 1"
proof -
  have "\<not> allow_concurrent_use (Driver_init cfg)"
    using assms by (auto simp add: Driver_init_def split: option.splits)
  then have "\<not> allow_concurrent_use (run_calls (Driver_init cfg) cs)" by simp
  then show ?thesis
    using driver_reachable_run_calls [OF driver_reachable_init, of cfg cs]
    by (auto simp add: driver_reachable_def)
qed

theorem exclusive_device_use_count_witness:
  "config_allow_concurrent_use
     \<lparr> config_id = ''test_device2'', config_allow_concurrent_use = None, config_settings = None \<rparr>
     \<noteq> Some True \<and>
   use_count (run_calls
     (Driver_init \<lparr> config_id = ''test_device2'', config_allow_concurrent_use = None, config_settings = None \<rparr>)
     [Reserve, Reserve, Reserve, Free]) = 0"
proof -
  let ?cfg = "\<lparr> config_id = ''test_device2'', config_allow_concurrent_use = None, config_settings = None \<rparr>"
  have h: "config_allow_concurrent_use ?cfg \<noteq> Some True" by simp
  have n: "use_count (run_calls (Driver_init ?cfg) [Reserve, Reserve, Reserve, Free]) \<noteq> 1"
    by (simp add: Driver_init_def run_calls_def reserve_device_def free_device_def is_locked_def Let_def)
  show ?thesis
    using exclusive_device_use_count [OF h, of "[Reserve, Reserve, Reserve, Free]"] n h by blast
qed


section \<open>Device output\<close>

lemma write_output_loop_filter:
  "write_output_loop ia self x ps =
     map (\<lambda>kp. (fst kp, x))
       (filter (\<lambda>kp. ia (snd kp) \<and> output_device (snd kp) = Some (driver_id self)) ps)"
  by (induction ia self x ps rule: write_output_loop.induct) simp_all

lemma write_output_keys:
  "map fst (write_output ia self x) =
     map fst (filter (\<lambda>kp. ia (snd kp) \<and> output_device (snd kp) = Some (driver_id self))
       (associated_pipelines self))"
  by (simp add: write_output_def write_output_loop_filter comp_def)

text \<open>
  C9. \<open>write_output\<close> calls \<open>write_output\<close> of exactly those associated pipelines that are
  active and whose output device is this device, once each and with the data given; the
  other associated pipelines are not called.
\<close>

theorem write_output_delivery:
  assumes "distinct (map fst (associated_pipelines self))"
  shows "set (map fst (write_output ia self x)) =
           {k. \<exists>p. (k, p) \<in> set (associated_pipelines self) \<and> ia p \<and>
                    output_device p = Some (driver_id self)} \<and>
         distinct (map fst (write_output ia self x)) \<and>
         (\<forall>c \<in> set (write_output ia self x). snd c = x)"
proof (intro conjI)
  show "set (map fst (write_output ia self x)) =
           {k. \<exists>p. (k, p) \<in> set (associated_pipelines self) \<and> ia p \<and>
                    output_device p = Some (driver_id self)}"
    unfolding write_output_keys by force
  show "distinct (map fst (write_output ia self x))"
    unfolding write_output_keys using assms by (rule distinct_map_filter)
  show "\<forall>c \<in> set (write_output ia self x). snd c = x"
    by (auto simp add: write_output_def write_output_loop_filter)
qed

theorem write_output_delivery_witness:
  "distinct (map fst (associated_pipelines
     ((test_device ''test_device'' False)
        \<lparr>associated_pipelines :=
           [(''test_pipeline'', (test_pipeline ''test_pipeline'' [''test_device''] (Some ''test_device''))\<lparr>in_use := True\<rparr>),
            (''test_pipeline2'', (test_pipeline ''test_pipeline2'' [''test_device'', ''test_device3''] (Some ''test_device3''))\<lparr>in_use := True\<rparr>),
            (''test_pipeline3'', test_pipeline ''test_pipeline3'' [''test_device''] (Some ''test_device''))]\<rparr>))) \<and>
   write_output in_use
     ((test_device ''test_device'' False)
        \<lparr>associated_pipelines :=
           [(''test_pipeline'', (test_pipeline ''test_pipeline'' [''test_device''] (Some ''test_device''))\<lparr>in_use := True\<rparr>),
            (''test_pipeline2'', (test_pipeline ''test_pipeline2'' [''test_device'', ''test_device3''] (Some ''test_device3''))\<lparr>in_use := True\<rparr>),
            (''test_pipeline3'', test_pipeline ''test_pipeline3'' [''test_device''] (Some ''test_device''))]\<rparr>)
     ''waffles'' = [(''test_pipeline'', ''waffles'')]"
proof -
  let ?d = "(test_device ''test_device'' False)
        \<lparr>associated_pipelines :=
           [(''test_pipeline'', (test_pipeline ''test_pipeline'' [''test_device''] (Some ''test_device''))\<lparr>in_use := True\<rparr>),
            (''test_pipeline2'', (test_pipeline ''test_pipeline2'' [''test_device'', ''test_device3''] (Some ''test_device3''))\<lparr>in_use := True\<rparr>),
            (''test_pipeline3'', test_pipeline ''test_pipeline3'' [''test_device''] (Some ''test_device''))]\<rparr>"
  have h: "distinct (map fst (associated_pipelines ?d))" by simp
  have e: "write_output in_use ?d ''waffles'' = [(''test_pipeline'', ''waffles'')]"
    by (simp add: write_output_def test_pipeline_def test_device_def Driver_init_def)
  show ?thesis using write_output_delivery [OF h, of in_use "''waffles''"] h e by blast
qed

section \<open>Pipeline locking\<close>








lemma driver_reachable_use_count: "driver_reachable d \<Longrightarrow> 0 \<le> use_count d"
  by (auto simp add: driver_reachable_def split: if_splits)


section \<open>Session registration\<close>

lemma set_active_services_invalid:
  "\<exists>(t, i) \<in> set sel. \<not> service_registered p t i \<Longrightarrow>
     fst (set_active_services sel p) = Inl ServiceInvalid"
proof (induction sel p rule: set_active_services.induct)
  case (1 p)
  then show ?case by simp
next
  case (2 t i rest p)
  show ?case
  proof (cases "service_registered p t i")
    case False
    then show ?thesis by (auto simp add: service_registered_def split: option.splits)
  next
    case True
    then obtain registered s where r: "services p t = Some registered" "registered i = Some s"
      by (auto simp add: service_registered_def split: option.splits)
    let ?p = "p\<lparr>active_services := (active_services p)(t \<mapsto> i)\<rparr>"
    have "\<exists>(t, i) \<in> set rest. \<not> service_registered ?p t i"
      using "2.prems" True by (auto simp add: service_registered_def)
    then show ?thesis using "2.IH" [OF r] r by simp
  qed
qed

text \<open>
  C6. \<open>register_session\<close> raises \<open>SessionAlreadyRegistered\<close>, changing nothing, when
  \<open>current_session\<close> is set; and when no session is registered and some entry of the
  session's \<open>active_services\<close> names a service type or id that is not registered, it
  raises \<open>ServiceInvalid\<close> and leaves \<open>current_session\<close> unset.
\<close>

theorem register_session_rejections:
  "(current_session p \<noteq> None \<longrightarrow> register_session s p = (Inl SessionAlreadyRegistered, p)) \<and>
   (current_session p = None \<and> active_services_config (configuration s) = Some sel \<and>
      (\<exists>(t, i) \<in> set sel. \<not> service_registered p t i) \<longrightarrow>
        fst (register_session s p) = Inl ServiceInvalid \<and>
        current_session (snd (register_session s p)) = None)"
proof (intro conjI impI)
  assume "current_session p \<noteq> None"
  then show "register_session s p = (Inl SessionAlreadyRegistered, p)"
    by (simp add: register_session_def)
next
  assume a: "current_session p = None \<and> active_services_config (configuration s) = Some sel \<and>
      (\<exists>(t, i) \<in> set sel. \<not> service_registered p t i)"
  let ?p1 = "p\<lparr>current_session := Some s\<rparr>"
  have "\<exists>(t, i) \<in> set sel. \<not> service_registered ?p1 t i"
    using a by (auto simp add: service_registered_def)
  then have f: "fst (set_active_services sel ?p1) = Inl ServiceInvalid"
    by (rule set_active_services_invalid)
  then obtain p2 where p2: "set_active_services sel ?p1 = (Inl ServiceInvalid, p2)"
    by (cases "set_active_services sel ?p1") auto
  show "fst (register_session s p) = Inl ServiceInvalid"
    using a p2 by (simp add: register_session_def)
  show "current_session (snd (register_session s p)) = None"
    using a p2 by (simp add: register_session_def)
qed


theorem register_session_rejections_witness:
  "register_session (test_session None)
      ((test_pipeline ''test_pipeline'' [''test_device''] None)\<lparr>current_session := Some (test_session None)\<rparr>) =
     (Inl SessionAlreadyRegistered,
      (test_pipeline ''test_pipeline'' [''test_device''] None)\<lparr>current_session := Some (test_session None)\<rparr>) \<and>
   fst (register_session (test_session (Some [(''tracker'', ''sgp4''), (''nonexistent_type'', ''nonexistent_service'')]))
      (test_pipeline ''test_pipeline'' [''test_device''] None)) = Inl ServiceInvalid \<and>
   current_session (snd (register_session (test_session (Some [(''tracker'', ''sgp4''), (''nonexistent_type'', ''nonexistent_service'')]))
      (test_pipeline ''test_pipeline'' [''test_device''] None))) = None \<and>
   fst (register_session (test_session (Some [(''tracker'', ''nonexistent_service'')]))
      (test_pipeline ''test_pipeline'' [''test_device''] None)) = Inl ServiceInvalid \<and>
   current_session (snd (register_session (test_session (Some [(''tracker'', ''nonexistent_service'')]))
      (test_pipeline ''test_pipeline'' [''test_device''] None))) = None \<and>
   fst (register_session (test_session (Some [(''tracker'', ''sgp4'')]))
      (test_pipeline ''test_pipeline'' [''test_device''] None)) = Inr ()"
proof -
  let ?p = "test_pipeline ''test_pipeline'' [''test_device''] None"
  let ?q = "?p\<lparr>current_session := Some (test_session None)\<rparr>"
  let ?s1 = "[(''tracker'', ''sgp4''), (''nonexistent_type'', ''nonexistent_service'')]"
  let ?s2 = "[(''tracker'', ''nonexistent_service'')]"
  have q: "current_session ?q \<noteq> None" by simp
  have p: "current_session ?p = None" by (simp add: test_pipeline_def)
  have c1: "active_services_config (configuration (test_session (Some ?s1))) = Some ?s1"
    by (simp add: test_session_def)
  have c2: "active_services_config (configuration (test_session (Some ?s2))) = Some ?s2"
    by (simp add: test_session_def)
  have i1: "\<exists>(t, i) \<in> set ?s1. \<not> service_registered ?p t i"
    by (simp add: service_registered_def test_pipeline_def)
  have i2: "\<exists>(t, i) \<in> set ?s2. \<not> service_registered ?p t i"
    by (simp add: service_registered_def test_pipeline_def)
  have ok: "fst (register_session (test_session (Some [(''tracker'', ''sgp4'')])) ?p) = Inr ()"
    by (simp add: register_session_def test_session_def test_pipeline_def)
  show ?thesis
    using register_session_rejections [of ?q "test_session None" "[]"]
      register_session_rejections [of ?p "test_session (Some ?s1)" ?s1]
      register_session_rejections [of ?p "test_session (Some ?s2)" ?s2]
      q p c1 c2 i1 i2 ok
    by blast
qed


section \<open>Command validation and parsing\<close>

lemma populate_after_schema:
  "command_schema j \<Longrightarrow>
     \<exists>c'. populate_command_attributes (c\<lparr>command_json := j, valid := True\<rparr>) = (Inr True, c')"
  by (auto simp add: command_schema_def populate_command_attributes_def split: json.splits option.splits)

lemma validate_command_valid:
  assumes "json_loads (command_raw c) = Some (JObj kvs)" and "command_schema (JObj kvs)"
  shows "validate_command json_loads c =
           (Inr (Callback True),
            c\<lparr>command_json := JObj kvs, valid := True,
              command := the (map_of kvs ''command''),
              device_id := (case map_of kvs ''device_id'' of Some v \<Rightarrow> v | None \<Rightarrow> JNull),
              parameters := (case map_of kvs ''parameters'' of Some v \<Rightarrow> v | None \<Rightarrow> JNull)\<rparr>)"
  using assms
  by (auto simp add: validate_command_def command_schema_def populate_command_attributes_def
      split: option.splits json.splits)

lemma run_command_device_unbound:
  "truthy (device_id c) \<Longrightarrow>
     run_command h now v c = Inl (UnboundLocalError
        (''local variable '' @ [CHR 0x27] @ ''command_handler'' @ [CHR 0x27] @ '' referenced before assignment''))"
  by (simp add: run_command_def)

lemma command_error_plain:
  "error_parameters e = None \<Longrightarrow>
     command_error now e c = Inr (build_command_response now c False (JObj [(''error_message'', JStr (str_exception e))]))"
  by (simp add: command_error_def)

lemma command_error_metadata:
  "command_error now (CommandError m (JObj kvs)) c =
     Inr (build_command_response now c False (JObj (dict (kvs @ [(''error_message'', JStr m)]))))"
  by (simp add: command_error_def)

lemma items_raises: "items v = Inl e \<Longrightarrow> error_parameters e = None"
  by (cases v) auto

lemma command_error_raises:
  assumes "command_error now e c = Inl e'"
  shows "error_parameters e' = None"
proof (cases "error_parameters e")
  case None
  then show ?thesis using assms by (simp add: command_error_def)
next
  case (Some ps)
  then have "items ps = Inl e'"
    using assms by (cases "items ps") (simp_all add: command_error_def)
  then show ?thesis by (rule items_raises)
qed

lemma concat_str_raises: "concat_str s v = Inl e \<Longrightarrow> error_parameters e = None"
  by (cases v) (auto simp add: concat_str_def)

lemma run_command_cases:
  "(truthy (device_id c) \<and>
      run_command h now v c = Inl (UnboundLocalError
        (''local variable '' @ [CHR 0x27] @ ''command_handler'' @ [CHR 0x27] @ '' referenced before assignment''))) \<or>
   (\<not> truthy (device_id c) \<and>
      ((\<exists>e. concat_str ''command_'' (command c) = Inl e \<and> run_command h now v c = Inl e) \<or>
       (\<exists>a. concat_str ''command_'' (command c) = Inr a \<and> h a = None \<and>
          run_command h now v c = Inl (CommandError
             (''The received command could not be located in the system command handler.'')
             (JObj [(''invalid_command'', command c)]))) \<or>
       (\<exists>a method. concat_str ''command_'' (command c) = Inr a \<and> h a = Some method \<and>
          run_command h now v c = Inr (addErrback
             (addCallback (deferToThread method c)
                (\<lambda>command_results. command_complete now command_results c))
             (\<lambda>failure_value. command_error now failure_value c)))))"
proof (cases "truthy (device_id c)")
  case True
  then show ?thesis by (simp add: run_command_def)
next
  case False
  show ?thesis
  proof (cases "concat_str ''command_'' (command c)")
    case (Inl e)
    then show ?thesis using False by (simp add: run_command_def)
  next
    case (Inr a)
    then show ?thesis using False by (cases "h a") (simp_all add: run_command_def)
  qed
qed

lemma run_command_raises:
  assumes "run_command h now v c = Inl e"
  shows "error_parameters e = None \<or> (\<exists>m kvs. e = CommandError m (JObj kvs))"
  using run_command_cases [of c h now v] assms concat_str_raises [of "''command_''" "command c"]
  by auto

lemma map_of_dict_aux:
  "map_of (foldl (\<lambda>d (k, v). AList.update k v d) acc kvs) = map_of acc ++ map_of (rev kvs)"
proof (induction kvs arbitrary: acc)
  case Nil
  then show ?case by simp
next
  case (Cons a kvs)
  obtain k v where a: "a = (k, v)" by (cases a)
  have "map_of (AList.update k v acc) ++ map_of (rev kvs) = map_of acc ++ map_of (rev (a # kvs))"
    by (rule ext) (simp add: a update_conv' map_add_def split: option.splits)
  then show ?case using Cons [of "AList.update k v acc"] a by simp
qed

lemma map_of_dict: "map_of (dict kvs) = map_of (rev kvs)"
  by (simp add: dict_def map_of_dict_aux)

lemma build_error_envelope:
  "map_of kvs ''error_message'' = Some (JStr m) \<Longrightarrow>
     error_envelope now c (build_command_response now c False (JObj kvs))"
  by (simp add: error_envelope_def build_command_response_def response_field_def result_field_def)

lemma command_error_envelope:
  assumes "command_error now e c = Inr r"
  shows "error_envelope now c r"
proof (cases "error_parameters e")
  case None
  then have "r = build_command_response now c False (JObj [(''error_message'', JStr (str_exception e))])"
    using assms by (simp add: command_error_def)
  then show ?thesis by (simp add: build_error_envelope)
next
  case (Some ps)
  then obtain kvs where kvs: "items ps = Inr kvs"
    using assms by (cases "items ps") (simp_all add: command_error_def)
  have "r = build_command_response now c False
              (JObj (dict (kvs @ [(''error_message'', JStr (str_exception e))])))"
    using assms Some kvs by (simp add: command_error_def)
  moreover have "map_of (dict (kvs @ [(''error_message'', JStr (str_exception e))])) ''error_message''
                 = Some (JStr (str_exception e))"
    by (simp add: map_of_dict)
  ultimately show ?thesis by (simp add: build_error_envelope)
qed

lemma command_error_returns:
  "error_parameters e = None \<or> (\<exists>m kvs. e = CommandError m (JObj kvs)) \<Longrightarrow>
     \<exists>r. command_error now e c = Inr r"
  by (auto simp add: command_error_def)

lemma run_command_outcome:
  assumes "run_command h now v c = Inr dd"
  shows "(\<exists>res. dd = Callback (build_command_response now c True res)) \<or>
         (\<exists>r. dd = Callback r \<and> error_envelope now c r) \<or>
         (\<exists>e. dd = Errback e \<and> error_parameters e = None)"
proof -
  obtain f where dd: "dd = addErrback
        (addCallback (deferToThread f c)
           (\<lambda>command_results. command_complete now command_results c))
        (\<lambda>failure_value. command_error now failure_value c)"
    using run_command_cases [of c h now v] assms by auto
  show ?thesis
  proof (cases "f c")
    case (Inr res)
    then show ?thesis using dd
      by (auto simp add: addErrback_def addCallback_def command_complete_def deferToThread_def)
  next
    case (Inl e)
    show ?thesis
    proof (cases "command_error now e c")
      case (Inl e')
      then show ?thesis using dd \<open>f c = Inl e\<close> command_error_raises [OF Inl]
        by (simp add: addErrback_def addCallback_def deferToThread_def)
    next
      case (Inr r)
      then show ?thesis using dd \<open>f c = Inl e\<close> command_error_envelope [OF Inr]
        by (simp add: addErrback_def addCallback_def deferToThread_def)
    qed
  qed
qed

lemma validate_command_cases:
  "(\<exists>e. fst (validate_command jl c) = Inr (Errback e) \<and> error_parameters e = None) \<or>
   fst (validate_command jl c) = Inr (Callback True)"
proof (cases "jl (command_raw c)")
  case None
  then show ?thesis by (simp add: validate_command_def)
next
  case (Some j)
  show ?thesis
  proof (cases "command_schema j")
    case True
    obtain c' where "populate_command_attributes (c\<lparr>command_json := j, valid := True\<rparr>) = (Inr True, c')"
      using populate_after_schema [OF True] by blast
    then show ?thesis using Some True by (simp add: validate_command_def)
  next
    case False
    then show ?thesis using Some by (simp add: validate_command_def)
  qed
qed

lemma populate_command_attributes_request:
  "request (snd (populate_command_attributes c)) = request c \<and>
   time_received (snd (populate_command_attributes c)) = time_received c"
  by (simp add: populate_command_attributes_def split: json.splits option.splits)

lemma validate_command_request:
  "request (snd (validate_command jl c)) = request c \<and>
   time_received (snd (validate_command jl c)) = time_received c"
proof (cases "jl (command_raw c)")
  case None
  then show ?thesis by (simp add: validate_command_def)
next
  case (Some j)
  show ?thesis
  proof (cases "command_schema j")
    case True
    obtain c' where c': "populate_command_attributes (c\<lparr>command_json := j, valid := True\<rparr>) = (Inr True, c')"
      using populate_after_schema [OF True] by blast
    then show ?thesis
      using Some True populate_command_attributes_request [of "c\<lparr>command_json := j, valid := True\<rparr>"]
      by (simp add: validate_command_def)
  next
    case False
    then show ?thesis using Some by (simp add: validate_command_def)
  qed
qed

lemma parse_command_delivers:
  "\<exists>r. parse_command jl h t now raw req = Inr (Callback r) \<and>
       response_request r = req \<and>
       response_field r ''received_at'' = Some (JFloat t) \<and>
       response_field r ''completed_at'' = Some (JFloat now) \<and>
       (response_field r ''status'' = Some (JStr ''okay'') \<or>
        response_field r ''status'' = Some (JStr ''error'') \<and>
        (\<exists>m. result_field r ''error_message'' = Some (JStr m)))"
proof -
  let ?init = "Command_init req t raw"
  let ?c = "snd (validate_command jl ?init)"
  have rq: "request ?c = req" "time_received ?c = t"
    using validate_command_request [of jl ?init] by (simp_all add: Command_init_def)
  let ?inner = "\<lambda>d. addCallback_deferred d (\<lambda>v. run_command h now v ?c)"
  have shape: "\<exists>r. addErrback (?inner d) (\<lambda>f. command_error now f ?c) = Callback r \<and>
                 ((\<exists>res. r = build_command_response now ?c True res) \<or> error_envelope now ?c r)"
    if d: "d = Callback True \<or> (\<exists>e. d = Errback e \<and> error_parameters e = None)" for d
  proof -
    have mid: "(\<exists>res. ?inner d = Callback (build_command_response now ?c True res)) \<or>
               (\<exists>r. ?inner d = Callback r \<and> error_envelope now ?c r) \<or>
               (\<exists>e. ?inner d = Errback e \<and>
                  (error_parameters e = None \<or> (\<exists>m kvs. e = CommandError m (JObj kvs))))"
    proof (cases d)
      case (Errback e)
      then show ?thesis using d by (simp add: addCallback_deferred_def)
    next
      case (Callback v)
      show ?thesis
      proof (cases "run_command h now v ?c")
        case (Inl e)
        then show ?thesis using Callback run_command_raises [OF Inl]
          by (simp add: addCallback_deferred_def)
      next
        case (Inr dd)
        then have i: "?inner d = dd" using Callback by (simp add: addCallback_deferred_def)
        show ?thesis using run_command_outcome [OF Inr] i by auto
      qed
    qed
    then consider
        (ok) res where "?inner d = Callback (build_command_response now ?c True res)"
      | (env) r where "?inner d = Callback r" "error_envelope now ?c r"
      | (err) e where "?inner d = Errback e"
          "error_parameters e = None \<or> (\<exists>m kvs. e = CommandError m (JObj kvs))"
      by blast
    then show ?thesis
    proof cases
      case ok
      then show ?thesis by (auto simp add: addErrback_def)
    next
      case env
      then show ?thesis by (auto simp add: addErrback_def)
    next
      case err
      obtain r where r: "command_error now e ?c = Inr r"
        using command_error_returns [OF err(2)] by blast
      have "error_envelope now ?c r" using r by (rule command_error_envelope)
      then show ?thesis using err(1) r by (auto simp add: addErrback_def)
    qed
  qed
  obtain d where v: "fst (validate_command jl ?init) = Inr d"
    and d: "d = Callback True \<or> (\<exists>e. d = Errback e \<and> error_parameters e = None)"
    using validate_command_cases [of jl ?init] by auto
  obtain r where r: "addErrback (?inner d) (\<lambda>f. command_error now f ?c) = Callback r"
    and s: "(\<exists>res. r = build_command_response now ?c True res) \<or> error_envelope now ?c r"
    using shape [OF d] by blast
  have p: "parse_command jl h t now raw req = Inr (Callback r)"
    using v r by (cases "validate_command jl ?init") (simp add: parse_command_def Let_def)
  from s show ?thesis
  proof
    assume "\<exists>res. r = build_command_response now ?c True res"
    then show ?thesis using p rq
      by (auto simp add: build_command_response_def response_field_def)
  next
    assume "error_envelope now ?c r"
    then show ?thesis using p rq by (auto simp add: error_envelope_def)
  qed
qed


section \<open>The command tests and three commands that go wrong\<close>

lemmas command_evaluation =
  parse_command_def validate_command_def Command_init_def test_json_loads_def
  command_schema_def populate_command_attributes_def run_command_def concat_str_def
  addErrback_def addCallback_def addCallback_deferred_def deferToThread_def command_error_def
  command_complete_def build_command_response_def test_system_handler_def dict_def Let_def

text \<open>The cases of \<open>test_command_infrastructure.py\<close>, run on the model.\<close>

lemma test_parser_unrecognized_command:
  \<open>parse_command test_json_loads test_system_handler t now
      ''{"command":"nonexistent_command","parameters":{"test_parameter":5}}'' req =
    Inr (Callback \<lparr> response_request = req,
       response = JObj [(''received_at'', JFloat t), (''completed_at'', JFloat now),
         (''status'', JStr ''error''),
         (''result'', JObj [(''invalid_command'', JStr ''nonexistent_command''),
            (''error_message'',
             JStr ''The received command could not be located in the system command handler.'')])] \<rparr>)\<close>
  by (simp add: command_evaluation)

lemma test_parser_malformed:
  \<open>parse_command test_json_loads test_system_handler t now
      ''{"invalid_json":true,invalid_element}'' req =
    Inr (Callback \<lparr> response_request = req,
       response = JObj [(''received_at'', JFloat t), (''completed_at'', JFloat now),
         (''status'', JStr ''error''),
         (''result'', JObj [(''error_message'',
            JStr ''The submitted command contained a malformed JSON string.'')])] \<rparr>)\<close>
  by (simp add: command_evaluation)

lemma test_command_invalid_schema:
  \<open>fst (validate_command test_json_loads
      (Command_init None 0 ''{"message": "This schema is invalid"}'')) =
    Inr (Errback (CommandInvalidSchema
      ''The submitted command did not conform to the command schema for command type: Command''))\<close>
  by (simp add: command_evaluation)

lemma test_command_valid_schema:
  \<open>command (snd (validate_command test_json_loads (Command_init None 0
      ''{"command":"test_command","parameters":{"test_parameter":5}}''))) = JStr ''test_command'' \<and>
   device_id (snd (validate_command test_json_loads (Command_init None 0
      ''{"command":"test_command","parameters":{"test_parameter":5}}''))) = JNull \<and>
   parameters (snd (validate_command test_json_loads (Command_init None 0
      ''{"command":"test_command","parameters":{"test_parameter":5}}''))) =
     JObj [(''test_parameter'', JInt 5)] \<and>
   parse_command test_json_loads test_system_handler t now
      ''{"command":"test_command","parameters":{"test_parameter":5}}'' req =
    Inr (Callback \<lparr> response_request = req,
       response = JObj [(''received_at'', JFloat t), (''completed_at'', JFloat now),
         (''status'', JStr ''okay''),
         (''result'', JObj [(''test_result'', JInt 10)])] \<rparr>)\<close>
  by (simp add: command_evaluation)

text \<open>
  C4. A validated command whose \<open>device_id\<close> is set is to go to the command handler of
  that device. \<open>_run_command\<close> does not get there: for the command \<open>test_command\<close>
  addressed to \<open>test_device\<close>, whatever the system handler offers, reading the unassigned
  \<open>command_handler\<close> raises \<open>UnboundLocalError\<close>, no command method runs, and
  \<open>parse_command\<close> delivers the error response for that exception.
\<close>

theorem parse_command_device_command_unbound:
  \<open>parse_command test_json_loads h t now
      ''{"command":"test_command","device_id":"test_device"}'' req =
    Inr (Callback \<lparr> response_request = req,
       response = JObj [(''received_at'', JFloat t), (''completed_at'', JFloat now),
         (''status'', JStr ''error''), (''device_id'', JStr ''test_device''),
         (''result'', JObj [(''error_message'',
            JStr (''local variable '' @ [CHR 0x27] @ ''command_handler'' @ [CHR 0x27] @
                  '' referenced before assignment''))])] \<rparr>)\<close>
  by (simp add: command_evaluation)

text \<open>
  C5. Every error of a command is to reach the caller as the error response that carries
  the error's message, with or without error data. For a command whose method raises a
  \<open>CommandError\<close> without error data, \<open>parse_command\<close> delivers an error response on the
  callback chain, but its message is that of the \<open>AttributeError\<close> raised inside
  \<open>_command_error\<close> (\<open>None\<close> has no \<open>items\<close>), not the message of the \<open>CommandError\<close>.
\<close>

theorem parse_command_error_message_replaced:
  \<open>parse_command test_json_loads test_system_handler t now
      ''{"command":"failing_command"}'' req =
    Inr (Callback \<lparr> response_request = req,
       response = JObj [(''received_at'', JFloat t), (''completed_at'', JFloat now),
         (''status'', JStr ''error''),
         (''result'', JObj [(''error_message'',
            JStr ([CHR 0x27] @ ''NoneType'' @ [CHR 0x27] @ '' object has no attribute '' @
                  [CHR 0x27] @ ''items'' @ [CHR 0x27]))])] \<rparr>) \<and>
   test_system_handler ''command_failing_command'' =
     Some (\<lambda>c. Inl (CommandError ''The command failed.'' JNull))\<close>
  by (simp add: command_evaluation)

text \<open>
  C8. After validation \<open>command\<close> holds the command name and \<open>device_id\<close> is \<open>None\<close> when
  the request has none; \<open>parameters\<close> is to default to an empty mapping. For the request
  \<open>{"command":"test_command"}\<close>, which omits \<open>parameters\<close>, the validated command has
  \<open>parameters = None\<close>, not the empty dictionary that the constructor set.
\<close>

theorem validate_command_parameters_omitted:
  \<open>valid (snd (validate_command test_json_loads
      (Command_init None 0 ''{"command":"test_command"}''))) \<and>
   command (snd (validate_command test_json_loads
      (Command_init None 0 ''{"command":"test_command"}''))) = JStr ''test_command'' \<and>
   device_id (snd (validate_command test_json_loads
      (Command_init None 0 ''{"command":"test_command"}''))) = JNull \<and>
   parameters (Command_init None 0 ''{"command":"test_command"}'') = JObj [] \<and>
   parameters (snd (validate_command test_json_loads
      (Command_init None 0 ''{"command":"test_command"}''))) = JNull \<and>
   parameters (snd (validate_command test_json_loads
      (Command_init None 0 ''{"command":"test_command"}''))) \<noteq> JObj []\<close>
  by (simp add: command_evaluation)

end
